theory Spec2Isabelle
  imports Complex_Main "HOL-Library.Option_ord" "HOL-Library.Product_Lexorder"
begin

section \<open>Keephy Plans Service: the plan resource\<close>

text \<open>
  The service is one file, \<^verbatim>\<open>src/index.js\<close>: a Mongoose schema for the Plan
  document and six Express handlers over it. The handlers are embedded as functions
  from the request and the collection to the JSON response and the new collection.

  Conventions of the embedding:
  \<^item> a JavaScript value that may be \<^verbatim>\<open>undefined\<close> is an \<open>option\<close>; in a stored
    document \<open>None\<close> is a field that is null or absent (unset);
  \<^item> a request body is a JSON object whose keys, when present, hold values of the type
    the schema declares for them, so a body key is \<open>None\<close> exactly when the key is
    absent; the casting that Mongoose applies to values of other types is outside the
    model, except that \<open>post_plans_json\<close> takes the name and the price of a create
    request as raw JSON values, with Mongoose's casts of them as parameters;
  \<^item> a JSON number is a \<open>real\<close>: the handlers only compare numbers and test them
    for zero;
  \<^item> the clock reading of a request (\<^verbatim>\<open>new Date()\<close>, \<^verbatim>\<open>Date.now\<close>) is the
    parameter \<open>now\<close> of the handlers that read the clock;
  \<^item> the store answers every query: connection faults are not modelled, the errors
    that remain are the ones Mongoose throws itself (identifier cast, validation).
\<close>

subsection \<open>The Plan document (planSchema)\<close>

type_synonym number = real
type_synonym date = nat

record feature =
  feature_name :: "string option"
  feature_included :: "bool option"
  feature_limit :: "number option"
  feature_description :: "string option"

text \<open>The \<^verbatim>\<open>limits\<close> object as a document carries it: every key has a value,
  because each has a schema default.\<close>

record limits =
  franchises :: number
  forms :: number
  submissions :: number
  staff :: number
  storage :: number
  apiCalls :: number

record plan =
  plan_id :: nat
  name :: "string option"
  description :: "string option"
  price :: "number option"
  currency :: "string option"
  interval :: "string option"
  features :: "feature list option"
  limits :: "limits option"
  stripePriceId :: "string option"
  stripeProductId :: "string option"
  isActive :: "bool option"
  isPopular :: "bool option"
  sortOrder :: "number option"
  createdAt :: date
  updatedAt :: date

subsection \<open>Request data\<close>

text \<open>The \<^verbatim>\<open>limits\<close> object of a request: any subset of the six keys.\<close>

record limits_in =
  in_franchises :: "number option"
  in_forms :: "number option"
  in_submissions :: "number option"
  in_staff :: "number option"
  in_storage :: "number option"
  in_apiCalls :: "number option"

text \<open>\<^verbatim>\<open>req.body\<close>, and also the object literal handed to \<^verbatim>\<open>new Plan(...)\<close>:
  the twelve keys the handlers destructure.\<close>

record body =
  body_name :: "string option"
  body_description :: "string option"
  body_price :: "number option"
  body_currency :: "string option"
  body_interval :: "string option"
  body_features :: "feature list option"
  body_limits :: "limits_in option"
  body_stripePriceId :: "string option"
  body_stripeProductId :: "string option"
  body_isActive :: "bool option"
  body_isPopular :: "bool option"
  body_sortOrder :: "number option"

text \<open>A JSON value, for the two keys whose raw value the create handler tests before
  Mongoose sees it.\<close>

datatype json =
  JNull
| JBool bool
| JNum number
| JStr string
| JArr "json list"
| JObj "(string \<times> json) list"

text \<open>\<^verbatim>\<open>req.query\<close> of the list route.\<close>

record query =
  active :: "string option"
  popular :: "string option"

text \<open>\<^verbatim>\<open>req.params.id\<close>, as Mongoose's ObjectId cast sees it: a string the cast
  rejects, or the identifier it denotes.\<close>

datatype ident = Malformed string | ObjectId nat

subsection \<open>Responses\<close>

datatype payload =
  PlanDoc plan
| PlanDocs "plan list"
| FeaturesAndLimits "feature list option" "limits option"

text \<open>The JSON object of \<^verbatim>\<open>res.status(..).json({..})\<close>; a key the handler does not
  write is \<open>None\<close>.\<close>

record response =
  status :: nat
  success :: bool
  data :: "payload option"
  count :: "nat option"
  message :: "string option"
  error :: "string option"

definition ok :: "nat \<Rightarrow> payload \<Rightarrow> response" where
  "ok code d =
     \<lparr>status = code, success = True, data = Some d, count = None, message = None,
      error = None\<rparr>"

definition fail :: "nat \<Rightarrow> string \<Rightarrow> response" where
  "fail code msg =
     \<lparr>status = code, success = False, data = None, count = None, message = None,
      error = Some msg\<rparr>"

subsection \<open>The collection\<close>

text \<open>The documents in insertion order, and the source of fresh identifiers (Mongoose
  generates an ObjectId for each new document; the counter stands for that generator).\<close>

record store =
  docs :: "plan list"
  nextId :: nat

datatype db_error = CastError | ValidationError

definition empty_store :: store where
  "empty_store = \<lparr>docs = [], nextId = 0\<rparr>"

subsection \<open>Schema defaults and validators\<close>

definition schemaDefault :: "'a \<Rightarrow> 'a option \<Rightarrow> 'a" where
  "schemaDefault d v = (case v of None \<Rightarrow> d | Some x \<Rightarrow> x)"

definition no_limits :: limits_in where
  "no_limits =
     \<lparr>in_franchises = None, in_forms = None, in_submissions = None, in_staff = None,
      in_storage = None, in_apiCalls = None\<rparr>"

text \<open>planSchema.limits: each key defaulted on its own.\<close>

definition limitsDefaults :: "limits_in \<Rightarrow> limits" where
  "limitsDefaults l =
     \<lparr>franchises = schemaDefault 1 (in_franchises l),
      forms = schemaDefault 5 (in_forms l),
      submissions = schemaDefault 100 (in_submissions l),
      staff = schemaDefault 5 (in_staff l),
      storage = schemaDefault 1024 (in_storage l),
      apiCalls = schemaDefault 1000 (in_apiCalls l)\<rparr>"

text \<open>\<^verbatim>\<open>new Plan(obj)\<close>: the fields of \<open>obj\<close>, the schema default where \<open>obj\<close> has
  no value, a fresh identifier, and \<^verbatim>\<open>Date.now\<close> for both timestamps.\<close>

definition newPlan :: "nat \<Rightarrow> date \<Rightarrow> body \<Rightarrow> plan" where
  "newPlan i now obj =
     \<lparr>plan_id = i,
      name = body_name obj,
      description = body_description obj,
      price = body_price obj,
      currency = Some (schemaDefault ''USD'' (body_currency obj)),
      interval = Some (schemaDefault ''monthly'' (body_interval obj)),
      features = Some (schemaDefault [] (body_features obj)),
      limits = Some (limitsDefaults (schemaDefault no_limits (body_limits obj))),
      stripePriceId = body_stripePriceId obj,
      stripeProductId = body_stripeProductId obj,
      isActive = Some (schemaDefault True (body_isActive obj)),
      isPopular = Some (schemaDefault False (body_isPopular obj)),
      sortOrder = Some (schemaDefault 0 (body_sortOrder obj)),
      createdAt = now,
      updatedAt = now\<rparr>"

definition intervalEnum :: "string list" where
  "intervalEnum = [''monthly'', ''yearly'', ''lifetime'']"

text \<open>The validators of planSchema, run by \<^verbatim>\<open>save()\<close>: \<^verbatim>\<open>required\<close> on name (a
  string passes when it is not empty) and on price, \<^verbatim>\<open>enum\<close> on interval. A new
  document always has an interval, from the handler or the schema default; a stored
  document has none only after an update wrote null over it, and the enum validator
  refuses null.\<close>

definition validate :: "plan \<Rightarrow> bool" where
  "validate p \<longleftrightarrow>
     (case name p of None \<Rightarrow> False | Some n \<Rightarrow> n \<noteq> []) \<and>
     price p \<noteq> None \<and>
     (case interval p of None \<Rightarrow> False | Some v \<Rightarrow> v \<in> set intervalEnum)"

subsection \<open>Model operations\<close>

text \<open>\<^verbatim>\<open>Plan.findById(id)\<close>: the cast of a malformed identifier throws.\<close>

fun findById :: "store \<Rightarrow> ident \<Rightarrow> db_error + plan option" where
  "findById s (Malformed v) = Inl CastError"
| "findById s (ObjectId i) = Inr (find (\<lambda>p. plan_id p = i) (docs s))"

definition replaceDoc :: "plan \<Rightarrow> plan list \<Rightarrow> plan list" where
  "replaceDoc p ds = map (\<lambda>d. if plan_id d = plan_id p then p else d) ds"

text \<open>\<^verbatim>\<open>plan.save()\<close>: validation first; a new document is inserted, a loaded one is
  written back.\<close>

definition save :: "bool \<Rightarrow> store \<Rightarrow> plan \<Rightarrow> db_error + store" where
  "save isNew s p =
     (if \<not> validate p then Inl ValidationError
      else if isNew then Inr (s\<lparr>docs := docs s @ [p]\<rparr>)
      else Inr (s\<lparr>docs := replaceDoc p (docs s)\<rparr>))"

text \<open>The filter object of the list route and \<^verbatim>\<open>Plan.find(filter)\<close>.\<close>

record filter_obj =
  filter_isActive :: "bool option"
  filter_isPopular :: "bool option"

definition matches :: "filter_obj \<Rightarrow> plan \<Rightarrow> bool" where
  "matches f p \<longleftrightarrow>
     (case filter_isActive f of None \<Rightarrow> True | Some b \<Rightarrow> isActive p = Some b) \<and>
     (case filter_isPopular f of None \<Rightarrow> True | Some b \<Rightarrow> isPopular p = Some b)"

text \<open>\<^verbatim>\<open>.sort({ sortOrder: 1, price: 1 })\<close>: ascending by sortOrder, then by price; an
  unset key sorts before every number, as null does in the store's ordering.\<close>

definition sortKey :: "plan \<Rightarrow> number option \<times> number option" where
  "sortKey p = (sortOrder p, price p)"

definition findSorted :: "store \<Rightarrow> filter_obj \<Rightarrow> plan list" where
  "findSorted s f = sort_key sortKey (filter (matches f) (docs s))"

text \<open>The update object of the PUT route: the twelve destructured keys and
  \<^verbatim>\<open>updatedAt\<close>.\<close>

record update =
  set_name :: "string option"
  set_description :: "string option"
  set_price :: "number option"
  set_currency :: "string option"
  set_interval :: "string option"
  set_features :: "feature list option"
  set_limits :: "limits_in option"
  set_stripePriceId :: "string option"
  set_stripeProductId :: "string option"
  set_isActive :: "bool option"
  set_isPopular :: "bool option"
  set_sortOrder :: "number option"
  set_updatedAt :: date

text \<open>
  One key of an update object applied to the stored field. A key that holds a value
  overwrites the field. What a key holding \<^verbatim>\<open>undefined\<close> does is decided by the
  library, not by \<^verbatim>\<open>index.js\<close>: Mongoose up to version 5 sends it on and the driver
  writes null (\<open>omitUndefined = False\<close>, the default of that option there); Mongoose
  from version 6 on removes such keys from every update (\<open>omitUndefined = True\<close>).
  The repository does not fix the version, so the behaviour is a parameter.
\<close>

definition setField :: "bool \<Rightarrow> 'a option \<Rightarrow> 'a option \<Rightarrow> 'a option" where
  "setField omitUndefined new old =
     (case new of Some v \<Rightarrow> Some v | None \<Rightarrow> if omitUndefined then old else None)"

text \<open>A \<^verbatim>\<open>limits\<close> object in an update replaces the stored one; read back, each key
  it lacks has its schema default.\<close>

definition applyUpdate :: "bool \<Rightarrow> update \<Rightarrow> plan \<Rightarrow> plan" where
  "applyUpdate omitUndefined u p =
     p\<lparr>name := setField omitUndefined (set_name u) (name p),
       description := setField omitUndefined (set_description u) (description p),
       price := setField omitUndefined (set_price u) (price p),
       currency := setField omitUndefined (set_currency u) (currency p),
       interval := setField omitUndefined (set_interval u) (interval p),
       features := setField omitUndefined (set_features u) (features p),
       limits := setField omitUndefined (map_option limitsDefaults (set_limits u)) (limits p),
       stripePriceId := setField omitUndefined (set_stripePriceId u) (stripePriceId p),
       stripeProductId := setField omitUndefined (set_stripeProductId u) (stripeProductId p),
       isActive := setField omitUndefined (set_isActive u) (isActive p),
       isPopular := setField omitUndefined (set_isPopular u) (isPopular p),
       sortOrder := setField omitUndefined (set_sortOrder u) (sortOrder p),
       updatedAt := set_updatedAt u\<rparr>"

text \<open>\<^verbatim>\<open>Plan.findByIdAndUpdate(id, update, { new: true })\<close>: no validators run; the
  result is the document after the update, or null when the identifier matches none.\<close>

definition findByIdAndUpdate ::
  "bool \<Rightarrow> store \<Rightarrow> ident \<Rightarrow> update \<Rightarrow> db_error + (plan option \<times> store)" where
  "findByIdAndUpdate omitUndefined s i u =
     (case findById s i of
        Inl e \<Rightarrow> Inl e
      | Inr None \<Rightarrow> Inr (None, s)
      | Inr (Some p) \<Rightarrow>
          (let p' = applyUpdate omitUndefined u p
           in Inr (Some p', s\<lparr>docs := replaceDoc p' (docs s)\<rparr>)))"

subsection \<open>JavaScript operators of the handlers\<close>

text \<open>\<^verbatim>\<open>x || d\<close> at each type: the empty string, zero, false and \<^verbatim>\<open>undefined\<close>
  are falsy, an array and an object are not.\<close>

definition or_string :: "string option \<Rightarrow> string \<Rightarrow> string" where
  "or_string x d = (case x of None \<Rightarrow> d | Some v \<Rightarrow> if v = [] then d else v)"

definition or_number :: "number option \<Rightarrow> number \<Rightarrow> number" where
  "or_number x d = (case x of None \<Rightarrow> d | Some v \<Rightarrow> if v = 0 then d else v)"

definition or_bool :: "bool option \<Rightarrow> bool \<Rightarrow> bool" where
  "or_bool x d = (case x of None \<Rightarrow> d | Some v \<Rightarrow> if v then v else d)"

definition or_object :: "'a option \<Rightarrow> 'a \<Rightarrow> 'a" where
  "or_object x d = (case x of None \<Rightarrow> d | Some v \<Rightarrow> v)"

text \<open>\<^verbatim>\<open>!name\<close> on a name of the schema's type.\<close>

definition falsy_string :: "string option \<Rightarrow> bool" where
  "falsy_string x = (case x of None \<Rightarrow> True | Some v \<Rightarrow> v = [])"

text \<open>\<^verbatim>\<open>!x\<close> on any value a JSON body can give a key: \<^verbatim>\<open>undefined\<close> (key absent),
  null, false, zero and the empty string are falsy, every other value is truthy.\<close>

fun falsy :: "json option \<Rightarrow> bool" where
  "falsy None = True"
| "falsy (Some JNull) = True"
| "falsy (Some (JBool b)) = (\<not> b)"
| "falsy (Some (JNum n)) = (n = 0)"
| "falsy (Some (JStr v)) = (v = [])"
| "falsy (Some (JArr vs)) = False"
| "falsy (Some (JObj kvs)) = False"

subsection \<open>The handlers\<close>

text \<open>\<^verbatim>\<open>app.get('/api/plans')\<close>\<close>

definition get_plans :: "store \<Rightarrow> query \<Rightarrow> response" where
  "get_plans s q =
     (let f = \<lparr>filter_isActive = (if active q = Some ''true'' then Some True else None),
               filter_isPopular = (if popular q = Some ''true'' then Some True else None)\<rparr>;
          plans = findSorted s f
      in \<lparr>status = 200, success = True, data = Some (PlanDocs plans),
          count = Some (length plans), message = None, error = None\<rparr>)"

text \<open>\<^verbatim>\<open>app.get('/api/plans/:id')\<close>\<close>

definition get_plan :: "store \<Rightarrow> ident \<Rightarrow> response" where
  "get_plan s i =
     (case findById s i of
        Inl e \<Rightarrow> fail 500 ''Failed to fetch plan''
      | Inr None \<Rightarrow> fail 404 ''Plan not found''
      | Inr (Some p) \<Rightarrow> ok 200 (PlanDoc p))"

text \<open>\<^verbatim>\<open>app.post('/api/plans')\<close>: \<^verbatim>\<open>isActive\<close> is not among the keys read from the
  body, so the constructor receives none.\<close>

definition post_plans :: "date \<Rightarrow> store \<Rightarrow> body \<Rightarrow> response \<times> store" where
  "post_plans now s b =
     (if falsy_string (body_name b) \<or> body_price b = None
      then (fail 400 ''Plan name and price are required'', s)
      else
        (let p = newPlan (nextId s) now
                   \<lparr>body_name = body_name b,
                    body_description = body_description b,
                    body_price = body_price b,
                    body_currency = Some (or_string (body_currency b) ''USD''),
                    body_interval = Some (or_string (body_interval b) ''monthly''),
                    body_features = Some (or_object (body_features b) []),
                    body_limits = Some (or_object (body_limits b) no_limits),
                    body_stripePriceId = body_stripePriceId b,
                    body_stripeProductId = body_stripeProductId b,
                    body_isActive = None,
                    body_isPopular = Some (or_bool (body_isPopular b) False),
                    body_sortOrder = Some (or_number (body_sortOrder b) 0)\<rparr>;
             s1 = s\<lparr>nextId := Suc (nextId s)\<rparr>
         in case save True s1 p of
              Inl e \<Rightarrow> (fail 500 ''Failed to create plan'', s1)
            | Inr s2 \<Rightarrow> (ok 201 (PlanDoc p), s2)))"

text \<open>
  \<^verbatim>\<open>app.post('/api/plans')\<close> once more, with \<^verbatim>\<open>name\<close> and \<^verbatim>\<open>price\<close> as the body
  gives them: any JSON value, or none. The guard of line 158 tests these raw values.
  Past the guard the constructor casts them to the schema's types; the casts belong to
  Mongoose and are the parameters \<open>castString\<close> and \<open>castNumber\<close> (\<open>Inl\<close> when the
  cast refuses the value, which \<^verbatim>\<open>save()\<close> then throws). The other ten keys are those
  of \<open>b\<close>, whose own name and price are not read.
\<close>

definition post_plans_json ::
  "(json \<Rightarrow> db_error + string option) \<Rightarrow> (json \<Rightarrow> db_error + number option) \<Rightarrow>
   date \<Rightarrow> store \<Rightarrow> json option \<Rightarrow> json option \<Rightarrow> body \<Rightarrow> response \<times> store" where
  "post_plans_json castString castNumber now s nm pr b =
     (if falsy nm \<or> pr = None
      then (fail 400 ''Plan name and price are required'', s)
      else
        (case (nm, pr) of
           (Some jn, Some jp) \<Rightarrow>
             (let s1 = s\<lparr>nextId := Suc (nextId s)\<rparr>
              in case castString jn of
                   Inl e \<Rightarrow> (fail 500 ''Failed to create plan'', s1)
                 | Inr n \<Rightarrow>
                     (case castNumber jp of
                        Inl e \<Rightarrow> (fail 500 ''Failed to create plan'', s1)
                      | Inr p \<Rightarrow>
                          (let d = newPlan (nextId s) now
                                     \<lparr>body_name = n,
                                      body_description = body_description b,
                                      body_price = p,
                                      body_currency = Some (or_string (body_currency b) ''USD''),
                                      body_interval =
                                        Some (or_string (body_interval b) ''monthly''),
                                      body_features = Some (or_object (body_features b) []),
                                      body_limits = Some (or_object (body_limits b) no_limits),
                                      body_stripePriceId = body_stripePriceId b,
                                      body_stripeProductId = body_stripeProductId b,
                                      body_isActive = None,
                                      body_isPopular = Some (or_bool (body_isPopular b) False),
                                      body_sortOrder = Some (or_number (body_sortOrder b) 0)\<rparr>
                           in case save True s1 d of
                                Inl e \<Rightarrow> (fail 500 ''Failed to create plan'', s1)
                              | Inr s2 \<Rightarrow> (ok 201 (PlanDoc d), s2))))
         | _ \<Rightarrow> (fail 400 ''Plan name and price are required'', s)))"

text \<open>\<^verbatim>\<open>app.put('/api/plans/:id')\<close>\<close>

definition put_plan :: "bool \<Rightarrow> date \<Rightarrow> store \<Rightarrow> ident \<Rightarrow> body \<Rightarrow> response \<times> store" where
  "put_plan omitUndefined now s i b =
     (case findByIdAndUpdate omitUndefined s i
             \<lparr>set_name = body_name b,
              set_description = body_description b,
              set_price = body_price b,
              set_currency = body_currency b,
              set_interval = body_interval b,
              set_features = body_features b,
              set_limits = body_limits b,
              set_stripePriceId = body_stripePriceId b,
              set_stripeProductId = body_stripeProductId b,
              set_isActive = body_isActive b,
              set_isPopular = body_isPopular b,
              set_sortOrder = body_sortOrder b,
              set_updatedAt = now\<rparr> of
        Inl e \<Rightarrow> (fail 500 ''Failed to update plan'', s)
      | Inr (None, s') \<Rightarrow> (fail 404 ''Plan not found'', s')
      | Inr (Some p, s') \<Rightarrow> (ok 200 (PlanDoc p), s'))"

text \<open>\<^verbatim>\<open>app.delete('/api/plans/:id')\<close>: the handler does not read the clock.\<close>

definition delete_plan :: "store \<Rightarrow> ident \<Rightarrow> response \<times> store" where
  "delete_plan s i =
     (case findById s i of
        Inl e \<Rightarrow> (fail 500 ''Failed to delete plan'', s)
      | Inr None \<Rightarrow> (fail 404 ''Plan not found'', s)
      | Inr (Some p) \<Rightarrow>
          (case save False s (p\<lparr>isActive := Some False\<rparr>) of
             Inl e \<Rightarrow> (fail 500 ''Failed to delete plan'', s)
           | Inr s' \<Rightarrow>
               (\<lparr>status = 200, success = True, data = None, count = None,
                 message = Some ''Plan deleted successfully'', error = None\<rparr>, s')))"

text \<open>\<^verbatim>\<open>app.get('/api/plans/:id/features')\<close>\<close>

definition get_plan_features :: "store \<Rightarrow> ident \<Rightarrow> response" where
  "get_plan_features s i =
     (case findById s i of
        Inl e \<Rightarrow> fail 500 ''Failed to fetch plan features''
      | Inr None \<Rightarrow> fail 404 ''Plan not found''
      | Inr (Some p) \<Rightarrow> ok 200 (FeaturesAndLimits (features p) (limits p)))"

subsection \<open>Reading a response\<close>

text \<open>The plans of a list response.\<close>

definition listed :: "response \<Rightarrow> plan list" where
  "listed r = (case data r of Some (PlanDocs ps) \<Rightarrow> ps | _ \<Rightarrow> [])"

text \<open>The success object of the DELETE route.\<close>

definition deleted_response :: response where
  "deleted_response =
     \<lparr>status = 200, success = True, data = None, count = None,
      message = Some ''Plan deleted successfully'', error = None\<rparr>"

definition default_limits :: limits where
  "default_limits =
     \<lparr>franchises = 1, forms = 5, submissions = 100, staff = 5, storage = 1024,
      apiCalls = 1000\<rparr>"

subsection \<open>Example requests and collections\<close>

definition empty_body :: body where
  "empty_body =
     \<lparr>body_name = None, body_description = None, body_price = None, body_currency = None,
      body_interval = None, body_features = None, body_limits = None,
      body_stripePriceId = None, body_stripeProductId = None, body_isActive = None,
      body_isPopular = None, body_sortOrder = None\<rparr>"

text \<open>\<^verbatim>\<open>{ name: "Pro", price: 29.99 }\<close>, \<^verbatim>\<open>{ name: "Basic", price: 9.99 }\<close> and
  \<^verbatim>\<open>{ price: 50 }\<close>.\<close>

definition pro_body :: body where
  "pro_body = empty_body\<lparr>body_name := Some ''Pro'', body_price := Some 29.99\<rparr>"

definition basic_body :: body where
  "basic_body = empty_body\<lparr>body_name := Some ''Basic'', body_price := Some 9.99\<rparr>"

definition price_only :: body where
  "price_only = empty_body\<lparr>body_price := Some 50\<rparr>"

definition pro_plan :: plan where
  "pro_plan =
     \<lparr>plan_id = 0, name = Some ''Pro'', description = None, price = Some 29.99,
      currency = Some ''USD'', interval = Some ''monthly'', features = Some [],
      limits = Some default_limits, stripePriceId = None, stripeProductId = None,
      isActive = Some True, isPopular = Some False, sortOrder = Some 0,
      createdAt = 1000, updatedAt = 1000\<rparr>"

definition basic_plan :: plan where
  "basic_plan =
     \<lparr>plan_id = 1, name = Some ''Basic'', description = None, price = Some 9.99,
      currency = Some ''USD'', interval = Some ''monthly'', features = Some [],
      limits = Some default_limits, stripePriceId = None, stripeProductId = None,
      isActive = Some True, isPopular = Some False, sortOrder = Some 0,
      createdAt = 1500, updatedAt = 1500\<rparr>"

text \<open>The collection after \<^verbatim>\<open>POST { name: "Pro", price: 29.99 }\<close> at time 1000.\<close>

definition pro_store :: store where
  "pro_store = snd (post_plans 1000 empty_store pro_body)"

text \<open>Then \<^verbatim>\<open>POST { name: "Basic", price: 9.99 }\<close> at time 1500 and \<^verbatim>\<open>DELETE\<close> of
  that plan.\<close>

definition mixed_store :: store where
  "mixed_store =
     snd (delete_plan (snd (post_plans 1500 pro_store basic_body)) (ObjectId 1))"

text \<open>The collection after \<^verbatim>\<open>PUT { name: "", price: 29.99 }\<close> on the Pro plan.\<close>

definition unnamed_store :: "bool \<Rightarrow> store" where
  "unnamed_store omitUndefined =
     snd (put_plan omitUndefined 2000 pro_store (ObjectId 0)
            (pro_body\<lparr>body_name := Some []\<rparr>))"

text \<open>Casts for the examples: a value of the schema's type and null are kept, as
  Mongoose keeps them; every other value is refused here (Mongoose converts some).\<close>

definition keep_strings :: "json \<Rightarrow> db_error + string option" where
  "keep_strings j =
     (case j of JStr v \<Rightarrow> Inr (Some v) | JNull \<Rightarrow> Inr None | _ \<Rightarrow> Inl CastError)"

definition keep_numbers :: "json \<Rightarrow> db_error + number option" where
  "keep_numbers j =
     (case j of JNum v \<Rightarrow> Inr (Some v) | JNull \<Rightarrow> Inr None | _ \<Rightarrow> Inl CastError)"

section \<open>Properties\<close>

subsection \<open>Auxiliary facts\<close>

lemmas create_defs =
  post_plans_def falsy_string_def newPlan_def save_def validate_def intervalEnum_def
  or_string_def or_object_def or_bool_def or_number_def schemaDefault_def no_limits_def
  limitsDefaults_def default_limits_def ok_def fail_def Let_def

lemmas example_defs = empty_body_def pro_body_def basic_body_def price_only_def

lemma pro_store_eq: "pro_store = \<lparr>docs = [pro_plan], nextId = 1\<rparr>"
  by (simp add: pro_store_def pro_plan_def empty_store_def example_defs create_defs)

lemma validate_pro_plan: "validate pro_plan"
  by (simp add: validate_def pro_plan_def intervalEnum_def)

lemma validate_basic_plan: "validate basic_plan"
  by (simp add: validate_def basic_plan_def intervalEnum_def)

lemma plan_ids_examples: "plan_id pro_plan = 0" "plan_id basic_plan = 1"
  by (simp_all add: pro_plan_def basic_plan_def)

lemma post_basic_eq:
  "post_plans 1500 pro_store basic_body =
     (ok 201 (PlanDoc basic_plan), \<lparr>docs = [pro_plan, basic_plan], nextId = 2\<rparr>)"
  by (simp add: pro_store_eq basic_plan_def example_defs create_defs)

lemma mixed_store_eq:
  "mixed_store = \<lparr>docs = [pro_plan, basic_plan\<lparr>isActive := Some False\<rparr>], nextId = 2\<rparr>"
  using validate_basic_plan
  by (simp add: mixed_store_def post_basic_eq delete_plan_def save_def replaceDoc_def
      validate_def plan_ids_examples)

lemma find_plan_id: "find (\<lambda>q. plan_id q = i) ds = Some p \<Longrightarrow> plan_id p = i"
  by (induction ds) (auto split: if_splits)

lemma find_replaceDoc:
  "find (\<lambda>q. plan_id q = i) ds = Some p \<Longrightarrow> plan_id p' = i \<Longrightarrow>
   find (\<lambda>q. plan_id q = i) (replaceDoc p' ds) = Some p'"
  by (induction ds) (auto simp: replaceDoc_def)

lemma replaceDoc_same_id:
  "q \<in> set (replaceDoc p' ds) \<Longrightarrow> plan_id q = plan_id p' \<Longrightarrow> q = p'"
  by (auto simp: replaceDoc_def split: if_splits)

lemma replaceDoc_idem: "replaceDoc p' (replaceDoc p' ds) = replaceDoc p' ds"
  by (induction ds) (auto simp: replaceDoc_def)

text \<open>The list route returns the documents that pass the two tests, sorted.\<close>

lemma listed_get_plans:
  "listed (get_plans s q) =
     sort_key sortKey
       (filter (\<lambda>p. (active q = Some ''true'' \<longrightarrow> isActive p = Some True) \<and>
                     (popular q = Some ''true'' \<longrightarrow> isPopular p = Some True)) (docs s))"
proof -
  have "matches \<lparr>filter_isActive = (if active q = Some ''true'' then Some True else None),
                  filter_isPopular = (if popular q = Some ''true'' then Some True else None)\<rparr>
        = (\<lambda>p. (active q = Some ''true'' \<longrightarrow> isActive p = Some True) \<and>
                (popular q = Some ''true'' \<longrightarrow> isPopular p = Some True))"
    by (auto simp: matches_def fun_eq_iff)
  then show ?thesis
    by (simp add: listed_def get_plans_def Let_def findSorted_def)
qed

lemma sortKey_le:
  "sortKey p \<le> sortKey p' \<longleftrightarrow>
     sortOrder p \<le> sortOrder p' \<and> (sortOrder p = sortOrder p' \<longrightarrow> price p \<le> price p')"
  by (auto simp: sortKey_def less_eq_prod_def)

lemma sortKey_examples:
  "sortKey pro_plan = (Some 0, Some 29.99)"
  "sortKey (basic_plan\<lparr>isActive := Some False\<rparr>) = (Some 0, Some 9.99)"
  by (simp_all add: sortKey_def pro_plan_def basic_plan_def)

lemma flags_examples:
  "isActive pro_plan = Some True" "isPopular pro_plan = Some False"
  "isPopular basic_plan = Some False"
  by (simp_all add: pro_plan_def basic_plan_def)

lemma listed_mixed_all:
  "listed (get_plans mixed_store \<lparr>active = Some ''false'', popular = None\<rparr>) =
     [basic_plan\<lparr>isActive := Some False\<rparr>, pro_plan]"
  by (simp add: listed_get_plans mixed_store_eq sortKey_examples less_eq_prod_def)

lemma listed_mixed_active:
  "listed (get_plans mixed_store \<lparr>active = Some ''true'', popular = None\<rparr>) = [pro_plan]"
  by (simp add: listed_get_plans mixed_store_eq flags_examples)

subsection \<open>C1: Update and the keys the body lacks\<close>

text \<open>
  C1, as claimed: after every Update of an existing record, every field whose key the
  body lacks is unset, so \<^verbatim>\<open>PUT { price: 50 }\<close> unsets the name \<^verbatim>\<open>"Pro"\<close>. The handler
  passes \<^verbatim>\<open>undefined\<close> for such a key; with a Mongoose that removes undefined keys from
  an update (version 6 and later) the name is kept: the claim fails there.
\<close>

theorem put_plan_full_replace_counterexample:
  "put_plan True 2000 pro_store (ObjectId 0) price_only =
     (ok 200 (PlanDoc (pro_plan\<lparr>price := Some 50, updatedAt := 2000\<rparr>)),
      \<lparr>docs = [pro_plan\<lparr>price := Some 50, updatedAt := 2000\<rparr>], nextId = 1\<rparr>) \<and>
   name (pro_plan\<lparr>price := Some 50, updatedAt := 2000\<rparr>) = Some ''Pro'' \<and>
   name (pro_plan\<lparr>price := Some 50, updatedAt := 2000\<rparr>) \<noteq> None"
  by (simp add: pro_store_eq pro_plan_def example_defs put_plan_def findByIdAndUpdate_def
      applyUpdate_def setField_def replaceDoc_def Let_def)

text \<open>
  C1, amended: Update of an existing record answers 200 with the stored record, in which
  every field whose key the body carries holds the supplied value and \<open>updatedAt\<close> is
  the time of the request; a field whose key the body lacks is unset when the store
  writes \<^verbatim>\<open>undefined\<close> as null (\<open>omitUndefined = False\<close>) and keeps its previous value
  when the store removes undefined keys (\<open>omitUndefined = True\<close>).
\<close>

theorem put_plan_absent_keys:
  assumes "findById s (ObjectId i) = Inr (Some p)"
  shows "\<exists>p'. put_plan omitUndefined now s (ObjectId i) b =
              (ok 200 (PlanDoc p'), s\<lparr>docs := replaceDoc p' (docs s)\<rparr>) \<and>
          get_plan (snd (put_plan omitUndefined now s (ObjectId i) b)) (ObjectId i) =
              ok 200 (PlanDoc p') \<and>
          plan_id p' = i \<and> createdAt p' = createdAt p \<and> updatedAt p' = now \<and>
          (body_name b = None \<longrightarrow> name p' = (if omitUndefined then name p else None)) \<and>
          (body_description b = None \<longrightarrow>
             description p' = (if omitUndefined then description p else None)) \<and>
          (body_price b = None \<longrightarrow> price p' = (if omitUndefined then price p else None)) \<and>
          (body_currency b = None \<longrightarrow>
             currency p' = (if omitUndefined then currency p else None)) \<and>
          (body_interval b = None \<longrightarrow>
             interval p' = (if omitUndefined then interval p else None)) \<and>
          (body_features b = None \<longrightarrow>
             features p' = (if omitUndefined then features p else None)) \<and>
          (body_limits b = None \<longrightarrow> limits p' = (if omitUndefined then limits p else None)) \<and>
          (body_stripePriceId b = None \<longrightarrow>
             stripePriceId p' = (if omitUndefined then stripePriceId p else None)) \<and>
          (body_stripeProductId b = None \<longrightarrow>
             stripeProductId p' = (if omitUndefined then stripeProductId p else None)) \<and>
          (body_isActive b = None \<longrightarrow>
             isActive p' = (if omitUndefined then isActive p else None)) \<and>
          (body_isPopular b = None \<longrightarrow>
             isPopular p' = (if omitUndefined then isPopular p else None)) \<and>
          (body_sortOrder b = None \<longrightarrow>
             sortOrder p' = (if omitUndefined then sortOrder p else None)) \<and>
          (\<forall>v. body_name b = Some v \<longrightarrow> name p' = Some v) \<and>
          (\<forall>v. body_description b = Some v \<longrightarrow> description p' = Some v) \<and>
          (\<forall>v. body_price b = Some v \<longrightarrow> price p' = Some v) \<and>
          (\<forall>v. body_currency b = Some v \<longrightarrow> currency p' = Some v) \<and>
          (\<forall>v. body_interval b = Some v \<longrightarrow> interval p' = Some v) \<and>
          (\<forall>v. body_features b = Some v \<longrightarrow> features p' = Some v) \<and>
          (\<forall>v. body_limits b = Some v \<longrightarrow> limits p' = Some (limitsDefaults v)) \<and>
          (\<forall>v. body_stripePriceId b = Some v \<longrightarrow> stripePriceId p' = Some v) \<and>
          (\<forall>v. body_stripeProductId b = Some v \<longrightarrow> stripeProductId p' = Some v) \<and>
          (\<forall>v. body_isActive b = Some v \<longrightarrow> isActive p' = Some v) \<and>
          (\<forall>v. body_isPopular b = Some v \<longrightarrow> isPopular p' = Some v) \<and>
          (\<forall>v. body_sortOrder b = Some v \<longrightarrow> sortOrder p' = Some v)"
proof -
  let ?u = "\<lparr>set_name = body_name b,
              set_description = body_description b,
              set_price = body_price b,
              set_currency = body_currency b,
              set_interval = body_interval b,
              set_features = body_features b,
              set_limits = body_limits b,
              set_stripePriceId = body_stripePriceId b,
              set_stripeProductId = body_stripeProductId b,
              set_isActive = body_isActive b,
              set_isPopular = body_isPopular b,
              set_sortOrder = body_sortOrder b,
              set_updatedAt = now\<rparr>"
  let ?p' = "applyUpdate omitUndefined ?u p"
  from assms have f: "find (\<lambda>q. plan_id q = i) (docs s) = Some p"
    by simp
  have pid: "plan_id ?p' = i"
    using find_plan_id [OF f] by (simp add: applyUpdate_def)
  have r: "put_plan omitUndefined now s (ObjectId i) b =
              (ok 200 (PlanDoc ?p'), s\<lparr>docs := replaceDoc ?p' (docs s)\<rparr>)"
    using f by (simp add: put_plan_def findByIdAndUpdate_def Let_def)
  have g: "get_plan (snd (put_plan omitUndefined now s (ObjectId i) b)) (ObjectId i) =
             ok 200 (PlanDoc ?p')"
    using find_replaceDoc [OF f pid] by (simp add: r get_plan_def)
  have flds: "createdAt ?p' = createdAt p \<and> updatedAt ?p' = now \<and>
          (body_name b = None \<longrightarrow> name ?p' = (if omitUndefined then name p else None)) \<and>
          (body_description b = None \<longrightarrow>
             description ?p' = (if omitUndefined then description p else None)) \<and>
          (body_price b = None \<longrightarrow> price ?p' = (if omitUndefined then price p else None)) \<and>
          (body_currency b = None \<longrightarrow>
             currency ?p' = (if omitUndefined then currency p else None)) \<and>
          (body_interval b = None \<longrightarrow>
             interval ?p' = (if omitUndefined then interval p else None)) \<and>
          (body_features b = None \<longrightarrow>
             features ?p' = (if omitUndefined then features p else None)) \<and>
          (body_limits b = None \<longrightarrow> limits ?p' = (if omitUndefined then limits p else None)) \<and>
          (body_stripePriceId b = None \<longrightarrow>
             stripePriceId ?p' = (if omitUndefined then stripePriceId p else None)) \<and>
          (body_stripeProductId b = None \<longrightarrow>
             stripeProductId ?p' = (if omitUndefined then stripeProductId p else None)) \<and>
          (body_isActive b = None \<longrightarrow>
             isActive ?p' = (if omitUndefined then isActive p else None)) \<and>
          (body_isPopular b = None \<longrightarrow>
             isPopular ?p' = (if omitUndefined then isPopular p else None)) \<and>
          (body_sortOrder b = None \<longrightarrow>
             sortOrder ?p' = (if omitUndefined then sortOrder p else None)) \<and>
          (\<forall>v. body_name b = Some v \<longrightarrow> name ?p' = Some v) \<and>
          (\<forall>v. body_description b = Some v \<longrightarrow> description ?p' = Some v) \<and>
          (\<forall>v. body_price b = Some v \<longrightarrow> price ?p' = Some v) \<and>
          (\<forall>v. body_currency b = Some v \<longrightarrow> currency ?p' = Some v) \<and>
          (\<forall>v. body_interval b = Some v \<longrightarrow> interval ?p' = Some v) \<and>
          (\<forall>v. body_features b = Some v \<longrightarrow> features ?p' = Some v) \<and>
          (\<forall>v. body_limits b = Some v \<longrightarrow> limits ?p' = Some (limitsDefaults v)) \<and>
          (\<forall>v. body_stripePriceId b = Some v \<longrightarrow> stripePriceId ?p' = Some v) \<and>
          (\<forall>v. body_stripeProductId b = Some v \<longrightarrow> stripeProductId ?p' = Some v) \<and>
          (\<forall>v. body_isActive b = Some v \<longrightarrow> isActive ?p' = Some v) \<and>
          (\<forall>v. body_isPopular b = Some v \<longrightarrow> isPopular ?p' = Some v) \<and>
          (\<forall>v. body_sortOrder b = Some v \<longrightarrow> sortOrder ?p' = Some v)"
    by (cases omitUndefined) (simp_all add: applyUpdate_def setField_def)
  show ?thesis
    by (intro exI [of _ ?p'] conjI) (insert r g pid flds, simp_all)
qed

text \<open>Witness for C1: \<^verbatim>\<open>PUT { price: 50 }\<close> on the Pro plan under either behaviour of
  the store.\<close>

theorem put_plan_absent_keys_witness:
  "findById pro_store (ObjectId 0) = Inr (Some pro_plan) \<and>
   (\<exists>p'. fst (put_plan False 2000 pro_store (ObjectId 0) price_only) = ok 200 (PlanDoc p') \<and>
         name p' = None \<and> price p' = Some 50 \<and> updatedAt p' = 2000) \<and>
   (\<exists>p'. fst (put_plan True 2000 pro_store (ObjectId 0) price_only) = ok 200 (PlanDoc p') \<and>
         name p' = Some ''Pro'' \<and> price p' = Some 50 \<and> updatedAt p' = 2000)"
proof -
  have h: "findById pro_store (ObjectId 0) = Inr (Some pro_plan)"
    by (simp add: pro_store_eq plan_ids_examples)
  have n: "name pro_plan = Some ''Pro''"
    by (simp add: pro_plan_def)
  have 1: "\<exists>p'. fst (put_plan False 2000 pro_store (ObjectId 0) price_only) =
              ok 200 (PlanDoc p') \<and>
            name p' = None \<and> price p' = Some 50 \<and> updatedAt p' = 2000"
    using put_plan_absent_keys [OF h, of False 2000 price_only]
    by (clarsimp simp: example_defs) blast
  have 2: "\<exists>p'. fst (put_plan True 2000 pro_store (ObjectId 0) price_only) =
              ok 200 (PlanDoc p') \<and>
            name p' = Some ''Pro'' \<and> price p' = Some 50 \<and> updatedAt p' = 2000"
    using put_plan_absent_keys [OF h, of True 2000 price_only] n
    by (clarsimp simp: example_defs) blast
  from h 1 2 show ?thesis
    by blast
qed

subsection \<open>C2: Create and the schema defaults\<close>




subsection \<open>C3: malformed identifiers\<close>

text \<open>
  C3, as claimed: a malformed identifier is answered with 404 by GetById, Update,
  SoftDelete and GetFeatures. No handler checks the identifier; the cast fails inside
  the query, the handler's \<^verbatim>\<open>catch\<close> takes the error, and the answer is 500.
\<close>

theorem malformed_id_404_counterexample:
  "status (get_plan pro_store (Malformed ''abc'')) = 500 \<and>
   status (fst (put_plan True 2000 pro_store (Malformed ''abc'') price_only)) = 500 \<and>
   status (fst (put_plan False 2000 pro_store (Malformed ''abc'') price_only)) = 500 \<and>
   status (fst (delete_plan pro_store (Malformed ''abc''))) = 500 \<and>
   status (get_plan_features pro_store (Malformed ''abc'')) = 500"
  by (simp add: get_plan_def put_plan_def delete_plan_def get_plan_features_def
      findByIdAndUpdate_def fail_def)

text \<open>
  C3, amended: for every malformed identifier GetById, Update, SoftDelete and
  GetFeatures answer 500 with the handler's generic failure message and leave the
  collection as it is; 404 is the answer to a well-formed identifier that matches no
  record.
\<close>

theorem malformed_id_500:
  "get_plan s (Malformed v) = fail 500 ''Failed to fetch plan'' \<and>
   put_plan omitUndefined now s (Malformed v) b = (fail 500 ''Failed to update plan'', s) \<and>
   delete_plan s (Malformed v) = (fail 500 ''Failed to delete plan'', s) \<and>
   get_plan_features s (Malformed v) = fail 500 ''Failed to fetch plan features'' \<and>
   (find (\<lambda>p. plan_id p = i) (docs s) = None \<longrightarrow>
      get_plan s (ObjectId i) = fail 404 ''Plan not found'' \<and>
      put_plan omitUndefined now s (ObjectId i) b = (fail 404 ''Plan not found'', s) \<and>
      delete_plan s (ObjectId i) = (fail 404 ''Plan not found'', s) \<and>
      get_plan_features s (ObjectId i) = fail 404 ''Plan not found'')"
  by (simp add: get_plan_def put_plan_def delete_plan_def get_plan_features_def
      findByIdAndUpdate_def)

text \<open>Witness for C3: the identifier 7 matches no record of the one-plan collection.\<close>

theorem malformed_id_500_witness:
  "find (\<lambda>p. plan_id p = 7) (docs pro_store) = None \<and>
   get_plan pro_store (ObjectId 7) = fail 404 ''Plan not found'' \<and>
   delete_plan pro_store (ObjectId 7) = (fail 404 ''Plan not found'', pro_store) \<and>
   get_plan pro_store (Malformed ''abc'') = fail 500 ''Failed to fetch plan''"
proof -
  have h: "find (\<lambda>p. plan_id p = 7) (docs pro_store) = None"
    by (simp add: pro_store_eq plan_ids_examples)
  from h malformed_id_500 [of pro_store "''abc''" True 2000 price_only 7]
  show ?thesis
    by simp
qed

subsection \<open>C4: updatedAt after a mutation\<close>

text \<open>
  C4: after every successful create, update or soft-delete the record's \<open>updatedAt\<close>
  is the time of that mutation. Create and Update set it; the DELETE handler writes
  \<open>isActive\<close> only and does not read the clock. Here the Pro plan is created at time
  1000: an Update at time 2000 leaves \<open>updatedAt = 2000\<close>, while a soft-delete, whenever
  it is served, succeeds and leaves \<open>updatedAt = 1000\<close>.
\<close>

theorem delete_plan_keeps_updatedAt:
  "map updatedAt (docs pro_store) = [1000] \<and>
   map updatedAt (docs (snd (put_plan True 2000 pro_store (ObjectId 0) pro_body))) = [2000] \<and>
   map updatedAt (docs (snd (put_plan False 2000 pro_store (ObjectId 0) pro_body))) = [2000] \<and>
   fst (delete_plan pro_store (ObjectId 0)) = deleted_response \<and>
   map isActive (docs (snd (delete_plan pro_store (ObjectId 0)))) = [Some False] \<and>
   map updatedAt (docs (snd (delete_plan pro_store (ObjectId 0)))) = [1000]"
  using validate_pro_plan
  by (simp add: pro_store_eq plan_ids_examples delete_plan_def save_def replaceDoc_def
      validate_def deleted_response_def put_plan_def findByIdAndUpdate_def applyUpdate_def
      setField_def pro_plan_def example_defs Let_def)

subsection \<open>C5: soft delete\<close>

text \<open>
  C5: SoftDelete of an existing record always succeeds and sets \<open>isActive = false\<close>,
  after which no list filtered by \<^verbatim>\<open>active=true\<close> contains the record. The DELETE
  handler writes through \<^verbatim>\<open>save()\<close>, which runs the schema's validators, while the PUT
  handler writes without them. So after \<^verbatim>\<open>PUT { name: "", price: 29.99 }\<close> on the Pro
  plan the record exists, DELETE of it is answered with 500, the record stays active
  and the list filtered by \<^verbatim>\<open>active=true\<close> still holds it. With a store that writes
  \<^verbatim>\<open>undefined\<close> as null the same happens after \<^verbatim>\<open>PUT { name: "Pro", price: 29.99 }\<close>,
  which nulls the interval.
\<close>

theorem delete_plan_fails_after_put:
  "get_plan (unnamed_store True) (ObjectId 0) =
     ok 200 (PlanDoc (pro_plan\<lparr>name := Some [], updatedAt := 2000\<rparr>)) \<and>
   delete_plan (unnamed_store True) (ObjectId 0) =
     (fail 500 ''Failed to delete plan'', unnamed_store True) \<and>
   map isActive (docs (unnamed_store True)) = [Some True] \<and>
   map plan_id (listed (get_plans (unnamed_store True)
                          \<lparr>active = Some ''true'', popular = None\<rparr>)) = [0] \<and>
   status (get_plan (unnamed_store False) (ObjectId 0)) = 200 \<and>
   delete_plan (unnamed_store False) (ObjectId 0) =
     (fail 500 ''Failed to delete plan'', unnamed_store False) \<and>
   status (get_plan (snd (put_plan False 2000 pro_store (ObjectId 0) pro_body))
             (ObjectId 0)) = 200 \<and>
   delete_plan (snd (put_plan False 2000 pro_store (ObjectId 0) pro_body)) (ObjectId 0) =
     (fail 500 ''Failed to delete plan'',
      snd (put_plan False 2000 pro_store (ObjectId 0) pro_body))"
  by (simp add: unnamed_store_def pro_store_eq pro_plan_def example_defs put_plan_def
      findByIdAndUpdate_def applyUpdate_def setField_def replaceDoc_def Let_def
      get_plan_def delete_plan_def save_def validate_def ok_def listed_get_plans)

text \<open>
  What DELETE does on a record that passes the validators: it succeeds and sets
  \<open>isActive = false\<close>; a second call succeeds too and changes nothing further; GetById
  then returns the record with \<open>isActive = false\<close>, and no list filtered by
  \<^verbatim>\<open>active=true\<close> contains it.
\<close>

lemma delete_plan_valid_record:
  assumes "findById s (ObjectId i) = Inr (Some p)" and "validate p"
  shows "\<exists>s1. delete_plan s (ObjectId i) = (deleted_response, s1) \<and>
          delete_plan s1 (ObjectId i) = (deleted_response, s1) \<and>
          get_plan s1 (ObjectId i) = ok 200 (PlanDoc (p\<lparr>isActive := Some False\<rparr>)) \<and>
          i \<notin> plan_id ` set (listed (get_plans s1 \<lparr>active = Some ''true'', popular = pq\<rparr>))"
proof -
  let ?p0 = "p\<lparr>isActive := Some False\<rparr>"
  let ?s1 = "s\<lparr>docs := replaceDoc ?p0 (docs s)\<rparr>"
  from assms(1) have f: "find (\<lambda>q. plan_id q = i) (docs s) = Some p"
    by simp
  have pid: "plan_id ?p0 = i"
    using find_plan_id [OF f] by simp
  from assms(2) have v: "validate ?p0"
    by (simp add: validate_def)
  have d1: "delete_plan s (ObjectId i) = (deleted_response, ?s1)"
    using f v by (simp add: delete_plan_def save_def deleted_response_def)
  have f1: "find (\<lambda>q. plan_id q = i) (docs ?s1) = Some ?p0"
    using find_replaceDoc [OF f pid] by simp
  have d2: "delete_plan ?s1 (ObjectId i) = (deleted_response, ?s1)"
    using f1 v by (simp add: delete_plan_def save_def deleted_response_def replaceDoc_idem)
  have g: "get_plan ?s1 (ObjectId i) = ok 200 (PlanDoc ?p0)"
    using f1 by (simp add: get_plan_def)
  have l: "i \<notin> plan_id ` set (listed (get_plans ?s1 \<lparr>active = Some ''true'', popular = pq\<rparr>))"
  proof
    assume "i \<in> plan_id ` set (listed (get_plans ?s1 \<lparr>active = Some ''true'', popular = pq\<rparr>))"
    then obtain q where q: "q \<in> set (replaceDoc ?p0 (docs s))" "plan_id q = i"
        "isActive q = Some True"
      by (auto simp: listed_get_plans)
    from q(1,2) pid have "q = ?p0"
      by (intro replaceDoc_same_id [of q ?p0 "docs s"]) simp_all
    with q(3) show False
      by simp
  qed
  from d1 d2 g l show ?thesis
    by blast
qed

subsection \<open>C6: what Create rejects\<close>

text \<open>
  C6, as claimed: Create answers 400 exactly when the name is absent or the price is
  undefined. The guard is \<^verbatim>\<open>!name\<close>: with a price given, a name that is present and
  is null, false, zero or the empty string is answered with 400 as well.
\<close>

theorem post_plans_rejects_counterexample:
  "status (fst (post_plans_json keep_strings keep_numbers 1000 empty_store
                  (Some JNull) (Some (JNum 29.99)) empty_body)) = 400 \<and>
   status (fst (post_plans_json keep_strings keep_numbers 1000 empty_store
                  (Some (JBool False)) (Some (JNum 29.99)) empty_body)) = 400 \<and>
   status (fst (post_plans_json keep_strings keep_numbers 1000 empty_store
                  (Some (JNum 0)) (Some (JNum 29.99)) empty_body)) = 400 \<and>
   status (fst (post_plans_json keep_strings keep_numbers 1000 empty_store
                  (Some (JStr [])) (Some (JNum 29.99)) empty_body)) = 400 \<and>
   status (fst (post_plans 1000 empty_store (pro_body\<lparr>body_name := Some []\<rparr>))) = 400"
  by (simp add: post_plans_json_def example_defs create_defs)

text \<open>
  C6, amended: Create answers 400 exactly when the name is absent or falsy (null, false,
  zero or the empty string) or the price is absent; every price that is present, zero
  included, passes the guard. The 400 answer carries the message
  \<^verbatim>\<open>Plan name and price are required\<close> and leaves the collection unchanged. Whenever
  Create does not succeed, no record is added and every list is what it was. A body
  with a non-empty string for name, the number zero for price and no interval is
  answered with 201 when the casts keep values of the schema's type. All of this holds
  whatever the casts make of other values.
\<close>

theorem post_plans_rejects:
  "(status (fst (post_plans_json castString castNumber now s nm pr b)) = 400 \<longleftrightarrow>
      falsy nm \<or> pr = None) \<and>
   (falsy nm \<longleftrightarrow>
      nm = None \<or> nm = Some JNull \<or> nm = Some (JBool False) \<or> nm = Some (JNum 0) \<or>
      nm = Some (JStr [])) \<and>
   (status (fst (post_plans_json castString castNumber now s nm pr b)) = 400 \<longrightarrow>
      post_plans_json castString castNumber now s nm pr b =
        (fail 400 ''Plan name and price are required'', s)) \<and>
   (\<not> success (fst (post_plans_json castString castNumber now s nm pr b)) \<longrightarrow>
      docs (snd (post_plans_json castString castNumber now s nm pr b)) = docs s \<and>
      get_plans (snd (post_plans_json castString castNumber now s nm pr b)) q =
        get_plans s q) \<and>
   (n \<noteq> [] \<and> castString (JStr n) = Inr (Some n) \<and> castNumber (JNum 0) = Inr (Some 0) \<and>
    body_interval b = None \<longrightarrow>
      status (fst (post_plans_json castString castNumber now s (Some (JStr n))
                     (Some (JNum 0)) b)) = 201)"
proof (intro conjI)
  show "status (fst (post_plans_json castString castNumber now s nm pr b)) = 400 \<longleftrightarrow>
      falsy nm \<or> pr = None"
    by (auto simp: post_plans_json_def Let_def ok_def fail_def
        split: sum.splits option.splits)
  show "falsy nm \<longleftrightarrow>
      nm = None \<or> nm = Some JNull \<or> nm = Some (JBool False) \<or> nm = Some (JNum 0) \<or>
      nm = Some (JStr [])"
    by (cases nm rule: falsy.cases) simp_all
  show "status (fst (post_plans_json castString castNumber now s nm pr b)) = 400 \<longrightarrow>
      post_plans_json castString castNumber now s nm pr b =
        (fail 400 ''Plan name and price are required'', s)"
    by (auto simp: post_plans_json_def Let_def ok_def fail_def
        split: sum.splits option.splits)
  show "\<not> success (fst (post_plans_json castString castNumber now s nm pr b)) \<longrightarrow>
      docs (snd (post_plans_json castString castNumber now s nm pr b)) = docs s \<and>
      get_plans (snd (post_plans_json castString castNumber now s nm pr b)) q =
        get_plans s q"
    by (auto simp: post_plans_json_def Let_def save_def get_plans_def findSorted_def ok_def
        fail_def split: sum.splits option.splits if_splits)
  show "n \<noteq> [] \<and> castString (JStr n) = Inr (Some n) \<and> castNumber (JNum 0) = Inr (Some 0) \<and>
    body_interval b = None \<longrightarrow>
      status (fst (post_plans_json castString castNumber now s (Some (JStr n))
                     (Some (JNum 0)) b)) = 201"
    by (simp add: post_plans_json_def Let_def save_def validate_def newPlan_def
        schemaDefault_def or_string_def intervalEnum_def ok_def)
qed

text \<open>Witness for C6: the name zero is rejected and the collection and its list stay as
  they were; a null price passes the guard and fails in \<^verbatim>\<open>save()\<close> without a record
  added; a price of zero with the name \<^verbatim>\<open>"Basic"\<close> is answered with 201.\<close>

theorem post_plans_rejects_witness:
  "falsy (Some (JNum 0)) \<and>
   post_plans_json keep_strings keep_numbers 2000 pro_store (Some (JNum 0))
       (Some (JNum 29.99)) empty_body =
     (fail 400 ''Plan name and price are required'', pro_store) \<and>
   get_plans (snd (post_plans_json keep_strings keep_numbers 2000 pro_store (Some (JNum 0))
                     (Some (JNum 29.99)) empty_body)) \<lparr>active = None, popular = None\<rparr> =
     get_plans pro_store \<lparr>active = None, popular = None\<rparr> \<and>
   status (fst (post_plans_json keep_strings keep_numbers 2000 pro_store
                  (Some (JStr ''Pro'')) (Some JNull) empty_body)) \<noteq> 400 \<and>
   \<not> success (fst (post_plans_json keep_strings keep_numbers 2000 pro_store
                     (Some (JStr ''Pro'')) (Some JNull) empty_body)) \<and>
   docs (snd (post_plans_json keep_strings keep_numbers 2000 pro_store
                (Some (JStr ''Pro'')) (Some JNull) empty_body)) = docs pro_store \<and>
   ''Basic'' \<noteq> [] \<and> keep_strings (JStr ''Basic'') = Inr (Some ''Basic'') \<and>
   keep_numbers (JNum 0) = Inr (Some 0) \<and> body_interval empty_body = None \<and>
   status (fst (post_plans_json keep_strings keep_numbers 2000 pro_store
                  (Some (JStr ''Basic'')) (Some (JNum 0)) empty_body)) = 201"
proof -
  let ?q = "\<lparr>active = None, popular = None\<rparr>"
  note zero_name = post_plans_rejects [where castString = keep_strings
      and castNumber = keep_numbers and now = 2000 and s = pro_store
      and nm = "Some (JNum 0)" and pr = "Some (JNum 29.99)" and b = empty_body and q = ?q]
  note null_price = post_plans_rejects [where castString = keep_strings
      and castNumber = keep_numbers and now = 2000 and s = pro_store
      and nm = "Some (JStr ''Pro'')" and pr = "Some JNull" and b = empty_body and q = ?q]
  note zero_price = post_plans_rejects [where castString = keep_strings
      and castNumber = keep_numbers and now = 2000 and s = pro_store
      and nm = "Some (JStr ''Basic'')" and pr = "Some (JNum 0)" and b = empty_body
      and n = "''Basic''"]
  have a: "falsy (Some (JNum 0))"
    by simp
  with zero_name
  have a1: "status (fst (post_plans_json keep_strings keep_numbers 2000 pro_store
                          (Some (JNum 0)) (Some (JNum 29.99)) empty_body)) = 400"
    by blast
  with zero_name
  have a2: "post_plans_json keep_strings keep_numbers 2000 pro_store (Some (JNum 0))
              (Some (JNum 29.99)) empty_body =
            (fail 400 ''Plan name and price are required'', pro_store)"
    by blast
  then have "\<not> success (fst (post_plans_json keep_strings keep_numbers 2000 pro_store
                                (Some (JNum 0)) (Some (JNum 29.99)) empty_body))"
    by (simp add: fail_def)
  with zero_name
  have a3: "get_plans (snd (post_plans_json keep_strings keep_numbers 2000 pro_store
                              (Some (JNum 0)) (Some (JNum 29.99)) empty_body)) ?q =
            get_plans pro_store ?q"
    by blast
  have "\<not> (falsy (Some (JStr ''Pro'')) \<or> Some JNull = (None :: json option))"
    by simp
  with null_price
  have b1: "status (fst (post_plans_json keep_strings keep_numbers 2000 pro_store
                          (Some (JStr ''Pro'')) (Some JNull) empty_body)) \<noteq> 400"
    by blast
  have b2: "\<not> success (fst (post_plans_json keep_strings keep_numbers 2000 pro_store
                               (Some (JStr ''Pro'')) (Some JNull) empty_body))"
    by (simp add: post_plans_json_def keep_strings_def keep_numbers_def example_defs
        create_defs)
  with null_price
  have b3: "docs (snd (post_plans_json keep_strings keep_numbers 2000 pro_store
                         (Some (JStr ''Pro'')) (Some JNull) empty_body)) = docs pro_store"
    by blast
  have c: "''Basic'' \<noteq> [] \<and> keep_strings (JStr ''Basic'') = Inr (Some ''Basic'') \<and>
           keep_numbers (JNum 0) = Inr (Some 0) \<and> body_interval empty_body = None"
    by (simp add: keep_strings_def keep_numbers_def empty_body_def)
  with zero_price
  have c1: "status (fst (post_plans_json keep_strings keep_numbers 2000 pro_store
                          (Some (JStr ''Basic'')) (Some (JNum 0)) empty_body)) = 201"
    by blast
  from a a2 a3 b1 b2 b3 c c1 show ?thesis
    by blast
qed

text \<open>On a body whose name is a string and whose price is a number, with casts that
  keep such values, the handler on raw values is the handler on typed bodies.\<close>

lemma post_plans_json_typed:
  assumes "castString (JStr n) = Inr (Some n)" and "castNumber (JNum p) = Inr (Some p)"
  shows "post_plans_json castString castNumber now s (Some (JStr n)) (Some (JNum p)) b =
           post_plans now s (b\<lparr>body_name := Some n, body_price := Some p\<rparr>)"
  using assms
  by (simp add: post_plans_json_def post_plans_def falsy_string_def Let_def)

subsection \<open>C7: the order of a list\<close>

text \<open>
  C7: every list returned by List is non-decreasing in \<open>sortOrder\<close> and, among records of
  equal \<open>sortOrder\<close>, non-decreasing in \<open>price\<close> (an unset key counts as smaller than
  every number, as null does in the store's ordering); List always answers 200, and an
  empty result is the success envelope with no plans and count 0.
\<close>

theorem get_plans_sorted:
  "sorted_wrt (\<lambda>p p'. sortOrder p \<le> sortOrder p' \<and>
                       (sortOrder p = sortOrder p' \<longrightarrow> price p \<le> price p'))
      (listed (get_plans s q)) \<and>
   status (get_plans s q) = 200 \<and> success (get_plans s q) \<and> error (get_plans s q) = None \<and>
   (listed (get_plans s q) = [] \<longrightarrow>
      get_plans s q = (ok 200 (PlanDocs []))\<lparr>count := Some 0\<rparr>)"
proof -
  have "sorted (map sortKey (listed (get_plans s q)))"
    by (simp add: listed_get_plans)
  then have "sorted_wrt (\<lambda>p p'. sortKey p \<le> sortKey p') (listed (get_plans s q))"
    by (simp add: sorted_wrt_map)
  then have 1: "sorted_wrt (\<lambda>p p'. sortOrder p \<le> sortOrder p' \<and>
                       (sortOrder p = sortOrder p' \<longrightarrow> price p \<le> price p'))
      (listed (get_plans s q))"
    by (simp add: sortKey_le)
  have 2: "status (get_plans s q) = 200 \<and> success (get_plans s q) \<and>
           error (get_plans s q) = None"
    by (simp add: get_plans_def Let_def)
  have 3: "listed (get_plans s q) = [] \<longrightarrow>
           get_plans s q = (ok 200 (PlanDocs []))\<lparr>count := Some 0\<rparr>"
    by (simp add: get_plans_def Let_def listed_def ok_def)
  from 1 2 3 show ?thesis
    by blast
qed

text \<open>Witness for C7: the two plans of equal \<open>sortOrder\<close> come back by price, the one
  inserted second first; the list of the empty collection is empty and not an error.\<close>

theorem get_plans_sorted_witness:
  "listed (get_plans mixed_store \<lparr>active = Some ''false'', popular = None\<rparr>) =
     [basic_plan\<lparr>isActive := Some False\<rparr>, pro_plan] \<and>
   sortOrder (basic_plan\<lparr>isActive := Some False\<rparr>) = sortOrder pro_plan \<and>
   price (basic_plan\<lparr>isActive := Some False\<rparr>) \<le> price pro_plan \<and>
   listed (get_plans empty_store \<lparr>active = None, popular = None\<rparr>) = [] \<and>
   get_plans empty_store \<lparr>active = None, popular = None\<rparr> =
     (ok 200 (PlanDocs []))\<lparr>count := Some 0\<rparr>"
proof -
  have e: "listed (get_plans empty_store \<lparr>active = None, popular = None\<rparr>) = []"
    by (simp add: listed_get_plans empty_store_def)
  from get_plans_sorted [of mixed_store "\<lparr>active = Some ''false'', popular = None\<rparr>"]
    get_plans_sorted [of empty_store "\<lparr>active = None, popular = None\<rparr>"] e
  show ?thesis
    by (simp add: listed_mixed_all pro_plan_def basic_plan_def)
qed

subsection \<open>C8: the success envelope\<close>

text \<open>
  C8, as claimed: every successful response carries \<^verbatim>\<open>data\<close>. The successful response
  of the DELETE route is \<^verbatim>\<open>{ success: true, message: 'Plan deleted successfully' }\<close>: it
  has no \<^verbatim>\<open>data\<close>.
\<close>

theorem success_envelope_counterexample:
  "success (fst (delete_plan pro_store (ObjectId 0))) \<and>
   data (fst (delete_plan pro_store (ObjectId 0))) = None \<and>
   message (fst (delete_plan pro_store (ObjectId 0))) = Some ''Plan deleted successfully''"
  using validate_pro_plan
  by (simp add: pro_store_eq plan_ids_examples delete_plan_def save_def validate_def)

text \<open>
  C8, amended: every successful response of list, get, create, update and features is
  the envelope \<^verbatim>\<open>{ success: true, data: <payload> }\<close> and nothing else, with \<^verbatim>\<open>count\<close>
  added exactly for list responses; the successful response of soft-delete is
  \<^verbatim>\<open>{ success: true, message: 'Plan deleted successfully' }\<close>, without \<^verbatim>\<open>data\<close>.
\<close>

theorem success_envelope:
  "(\<exists>ps. get_plans s q = (ok 200 (PlanDocs ps))\<lparr>count := Some (length ps)\<rparr>) \<and>
   (success (get_plan s i) \<longrightarrow> (\<exists>p. get_plan s i = ok 200 (PlanDoc p))) \<and>
   (success (fst (post_plans now s b)) \<longrightarrow>
      (\<exists>p. fst (post_plans now s b) = ok 201 (PlanDoc p))) \<and>
   (success (fst (put_plan omitUndefined now s i b)) \<longrightarrow>
      (\<exists>p. fst (put_plan omitUndefined now s i b) = ok 200 (PlanDoc p))) \<and>
   (success (get_plan_features s i) \<longrightarrow>
      (\<exists>fs ls. get_plan_features s i = ok 200 (FeaturesAndLimits fs ls))) \<and>
   (success (fst (delete_plan s i)) \<longrightarrow> fst (delete_plan s i) = deleted_response)"
proof (intro conjI)
  show "\<exists>ps. get_plans s q = (ok 200 (PlanDocs ps))\<lparr>count := Some (length ps)\<rparr>"
    by (simp add: get_plans_def ok_def Let_def)
  show "success (get_plan s i) \<longrightarrow> (\<exists>p. get_plan s i = ok 200 (PlanDoc p))"
    by (auto simp: get_plan_def ok_def fail_def split: sum.splits option.splits)
  show "success (fst (post_plans now s b)) \<longrightarrow>
      (\<exists>p. fst (post_plans now s b) = ok 201 (PlanDoc p))"
    by (auto simp: post_plans_def Let_def ok_def fail_def split: sum.splits option.splits)
  show "success (fst (put_plan omitUndefined now s i b)) \<longrightarrow>
      (\<exists>p. fst (put_plan omitUndefined now s i b) = ok 200 (PlanDoc p))"
    by (auto simp: put_plan_def ok_def fail_def split: sum.splits option.splits prod.splits)
  show "success (get_plan_features s i) \<longrightarrow>
      (\<exists>fs ls. get_plan_features s i = ok 200 (FeaturesAndLimits fs ls))"
    by (auto simp: get_plan_features_def ok_def fail_def split: sum.splits option.splits)
  show "success (fst (delete_plan s i)) \<longrightarrow> fst (delete_plan s i) = deleted_response"
    by (auto simp: delete_plan_def deleted_response_def fail_def
        split: sum.splits option.splits)
qed

text \<open>Witness for C8: the six routes on the one-plan collection.\<close>

theorem success_envelope_witness:
  "success (get_plan pro_store (ObjectId 0)) \<and>
   (\<exists>p. get_plan pro_store (ObjectId 0) = ok 200 (PlanDoc p)) \<and>
   success (fst (post_plans 1500 pro_store basic_body)) \<and>
   (\<exists>p. fst (post_plans 1500 pro_store basic_body) = ok 201 (PlanDoc p)) \<and>
   success (fst (put_plan True 2000 pro_store (ObjectId 0) price_only)) \<and>
   (\<exists>p. fst (put_plan True 2000 pro_store (ObjectId 0) price_only) = ok 200 (PlanDoc p)) \<and>
   success (get_plan_features pro_store (ObjectId 0)) \<and>
   (\<exists>fs ls. get_plan_features pro_store (ObjectId 0) = ok 200 (FeaturesAndLimits fs ls)) \<and>
   success (fst (delete_plan pro_store (ObjectId 0))) \<and>
   fst (delete_plan pro_store (ObjectId 0)) = deleted_response \<and>
   (\<exists>ps. get_plans pro_store \<lparr>active = None, popular = None\<rparr> =
          (ok 200 (PlanDocs ps))\<lparr>count := Some (length ps)\<rparr>)"
proof -
  have 1: "success (get_plan pro_store (ObjectId 0))"
    by (simp add: get_plan_def pro_store_eq plan_ids_examples ok_def)
  have 2: "success (fst (post_plans 1500 pro_store basic_body))"
    by (simp add: post_basic_eq ok_def)
  have 3: "success (fst (put_plan True 2000 pro_store (ObjectId 0) price_only))"
    by (simp add: put_plan_def findByIdAndUpdate_def pro_store_eq plan_ids_examples ok_def
        Let_def)
  have 4: "success (get_plan_features pro_store (ObjectId 0))"
    by (simp add: get_plan_features_def pro_store_eq plan_ids_examples ok_def)
  have 5: "success (fst (delete_plan pro_store (ObjectId 0)))"
    using validate_pro_plan
    by (simp add: pro_store_eq plan_ids_examples delete_plan_def save_def validate_def)
  from 1 2 3 4 5
    success_envelope [of pro_store "\<lparr>active = None, popular = None\<rparr>" "ObjectId 0" 1500
      basic_body True]
    success_envelope [of pro_store "\<lparr>active = None, popular = None\<rparr>" "ObjectId 0" 2000
      price_only True]
  show ?thesis
    by simp
qed

subsection \<open>C9: the list filters\<close>

text \<open>
  C9: List returns, sorted, exactly the records that pass the filters in force; the
  filter on \<open>isActive\<close> is in force exactly when the query parameter \<^verbatim>\<open>active\<close> is the
  string \<^verbatim>\<open>true\<close>, the filter on \<open>isPopular\<close> exactly when \<^verbatim>\<open>popular\<close> is. With any
  other value, \<^verbatim>\<open>false\<close> included, or with the parameter absent the filter is not
  applied: when neither is in force every record is returned.
\<close>

theorem get_plans_filters:
  "listed (get_plans s q) =
     sort_key sortKey
       (filter (\<lambda>p. (active q = Some ''true'' \<longrightarrow> isActive p = Some True) \<and>
                     (popular q = Some ''true'' \<longrightarrow> isPopular p = Some True)) (docs s)) \<and>
   set (listed (get_plans s q)) =
     {p \<in> set (docs s). (active q = Some ''true'' \<longrightarrow> isActive p = Some True) \<and>
                         (popular q = Some ''true'' \<longrightarrow> isPopular p = Some True)} \<and>
   (active q \<noteq> Some ''true'' \<and> popular q \<noteq> Some ''true'' \<longrightarrow>
      set (listed (get_plans s q)) = set (docs s) \<and>
      length (listed (get_plans s q)) = length (docs s))"
  by (auto simp: listed_get_plans)

text \<open>Witness for C9: with \<^verbatim>\<open>active=true\<close> the soft-deleted Basic plan is left out, with
  \<^verbatim>\<open>active=false\<close> both plans are returned.\<close>

theorem get_plans_filters_witness:
  "listed (get_plans mixed_store \<lparr>active = Some ''true'', popular = None\<rparr>) = [pro_plan] \<and>
   active \<lparr>active = Some ''false'', popular = None\<rparr> \<noteq> Some ''true'' \<and>
   popular \<lparr>active = Some ''false'', popular = None\<rparr> \<noteq> Some ''true'' \<and>
   set (listed (get_plans mixed_store \<lparr>active = Some ''false'', popular = None\<rparr>)) =
     {pro_plan, basic_plan\<lparr>isActive := Some False\<rparr>} \<and>
   length (listed (get_plans mixed_store \<lparr>active = Some ''false'', popular = None\<rparr>)) = 2"
proof -
  let ?t = "\<lparr>active = Some ''true'', popular = None\<rparr>"
  let ?f = "\<lparr>active = Some ''false'', popular = None\<rparr>"
  have d: "docs mixed_store = [pro_plan, basic_plan\<lparr>isActive := Some False\<rparr>]"
    by (simp add: mixed_store_eq)
  have "listed (get_plans mixed_store ?t) =
          sort_key sortKey (filter (\<lambda>p. isActive p = Some True) (docs mixed_store))"
    using get_plans_filters [of mixed_store ?t] by simp
  then have 1: "listed (get_plans mixed_store ?t) = [pro_plan]"
    by (simp add: d flags_examples)
  have "set (listed (get_plans mixed_store ?f)) = set (docs mixed_store) \<and>
        length (listed (get_plans mixed_store ?f)) = length (docs mixed_store)"
    using get_plans_filters [of mixed_store ?f] by simp
  then have 2: "set (listed (get_plans mixed_store ?f)) =
                  {pro_plan, basic_plan\<lparr>isActive := Some False\<rparr>} \<and>
                length (listed (get_plans mixed_store ?f)) = 2"
    by (simp add: d)
  from 1 2 show ?thesis
    by simp
qed

subsection \<open>C10: Create and isActive\<close>

text \<open>
  C10: Create does not read \<^verbatim>\<open>isActive\<close> from the body: the response and the new
  collection are the same whatever value the body gives it, and every record Create
  stores and returns has \<open>isActive = true\<close>.
\<close>

theorem post_plans_ignores_isActive:
  "post_plans now s (b\<lparr>body_isActive := v\<rparr>) = post_plans now s b \<and>
   (success (fst (post_plans now s b)) \<longrightarrow>
      (\<exists>p. post_plans now s b =
              (ok 201 (PlanDoc p), s\<lparr>nextId := Suc (nextId s), docs := docs s @ [p]\<rparr>) \<and>
           isActive p = Some True))"
proof (intro conjI)
  show "post_plans now s (b\<lparr>body_isActive := v\<rparr>) = post_plans now s b"
    by (simp add: post_plans_def)
  show "success (fst (post_plans now s b)) \<longrightarrow>
      (\<exists>p. post_plans now s b =
              (ok 201 (PlanDoc p), s\<lparr>nextId := Suc (nextId s), docs := docs s @ [p]\<rparr>) \<and>
           isActive p = Some True)"
    by (auto simp: post_plans_def Let_def save_def newPlan_def schemaDefault_def ok_def
        fail_def split: sum.splits if_splits)
qed

text \<open>Witness for C10: \<^verbatim>\<open>POST { name: "Basic", price: 9.99, isActive: false }\<close>.\<close>

theorem post_plans_ignores_isActive_witness:
  "post_plans 1500 pro_store (basic_body\<lparr>body_isActive := Some False\<rparr>) =
     post_plans 1500 pro_store basic_body \<and>
   success (fst (post_plans 1500 pro_store (basic_body\<lparr>body_isActive := Some False\<rparr>))) \<and>
   (\<exists>p. post_plans 1500 pro_store (basic_body\<lparr>body_isActive := Some False\<rparr>) =
           (ok 201 (PlanDoc p),
            pro_store\<lparr>nextId := Suc (nextId pro_store), docs := docs pro_store @ [p]\<rparr>) \<and>
         isActive p = Some True)"
proof -
  have e: "post_plans 1500 pro_store (basic_body\<lparr>body_isActive := Some False\<rparr>) =
           post_plans 1500 pro_store basic_body"
    using post_plans_ignores_isActive [where now = 1500 and s = pro_store and b = basic_body
        and v = "Some False"]
    by simp
  have s: "success (fst (post_plans 1500 pro_store basic_body))"
    by (simp add: post_basic_eq ok_def)
  from e s post_plans_ignores_isActive [where now = 1500 and s = pro_store and b = basic_body
        and v = "Some False"]
  show ?thesis
    by simp
qed


end
